theory Spec2Isabelle
  imports Main
begin

section \<open>Values shared by the adapters\<close>

text \<open>
  A Go \<^verbatim>\<open>interface{}\<close> holding decoded JSON or a request parameter. A
  \<^verbatim>\<open>map[string]interface{}\<close> that came out of a response is a list of fields read
  with \<open>map_of\<close>; the nil map and the empty map are both \<open>[]\<close> (the code only reads
  them).
\<close>

datatype json =
    JNull
  | JBool bool
  | JNum int
  | JStr string
  | JArr "json list"
  | JObj "(string \<times> json) list"

type_synonym object = "(string \<times> json) list"

text \<open>
  \<^verbatim>\<open>time.Duration\<close> is a count of nanoseconds. Every duration of this development is a
  non-negative constant far below \<open>2 ^ 63\<close>, so \<open>nat\<close> carries it without wrap-around.
\<close>

type_synonym Duration = nat

definition Second :: Duration where
  "Second = 1000000000"

definition Minute :: Duration where
  "Minute = 60 * Second"

text \<open>
  Go errors as values. \<open>External\<close> is an error made outside the code modelled here (the
  SDK connection, the token callback); \<open>InvalidResourceId\<close> is the error of
  \<^verbatim>\<open>ParseResourceId\<close>, \<open>JsonPathError\<close> that of \<^verbatim>\<open>jsonpath.Get\<close>, and
  \<open>Error_GetNotFoundMessage p i\<close> stands for \<^verbatim>\<open>Error(GetNotFoundMessage(p, i))\<close>.
  \<^verbatim>\<open>WrapError\<close> and \<^verbatim>\<open>WrapErrorf\<close> are defined outside src/ and kept as
  constructors: a wrapped error records its cause and, for \<^verbatim>\<open>WrapErrorf\<close>, the message
  template and the arguments. The message templates and the error source are constants of
  the provider that the adapter passes by name.
\<close>

datatype msg = DefaultErrorMsg | FailedGetAttributeMsg | NotFoundWithResponse

datatype ErrorSource = AlibabaCloudSdkGoERROR

datatype arg = ArgStr string | ArgSource ErrorSource | ArgResponse object

datatype error =
    External string
  | InvalidResourceId string nat nat
  | JsonPathError string
  | Error_GetNotFoundMessage string string
  | WrapError error
  | WrapErrorf error msg "arg list"

section \<open>Resource ids\<close>

text \<open>
  Go's \<^verbatim>\<open>strings.Split(s, sep)\<close> for a one-character separator: \<open>n\<close> separators
  give \<open>n + 1\<close> parts, and the empty string gives one empty part.
\<close>

fun Split :: "char \<Rightarrow> string \<Rightarrow> string list" where
  "Split sep [] = [[]]"
| "Split sep (c # cs) =
     (if c = sep then [] # Split sep cs
      else (case Split sep cs of
              [] \<Rightarrow> [[c]]
            | p # ps \<Rightarrow> (c # p) # ps))"

text \<open>
  Modelled from the spec: \<^verbatim>\<open>ParseResourceId\<close> is called by the adapter but defined in a
  file that is not under src/. An id is its parts joined with colons (the documented
  format \<^verbatim>\<open><traffic_mirror_filter_id>:<traffic_mirror_filter_ingress_rule_id>\<close>);
  parsing splits at every colon and fails unless the number of parts is the expected one.
\<close>

definition ParseResourceId :: "string \<Rightarrow> nat \<Rightarrow> error + string list" where
  "ParseResourceId id' n =
     (let parts = Split CHR '':'' id'
      in if length parts \<noteq> n then Inl (InvalidResourceId id' n (length parts))
         else Inr parts)"


section \<open>The log-service token client\<close>

type_synonym Time = int

record Client =
  Endpoint :: string
  AccessKeyID :: string
  AccessKeySecret :: string
  SecurityToken :: string

definition CreateNormalInterface :: "string \<Rightarrow> string \<Rightarrow> string \<Rightarrow> string \<Rightarrow> Client" where
  "CreateNormalInterface endpoint accessKeyID accessKeySecret securityToken =
     \<lparr> Endpoint = endpoint,
       AccessKeyID = accessKeyID,
       AccessKeySecret = accessKeySecret,
       SecurityToken = securityToken \<rparr>"

text \<open>
  One result of an \<^verbatim>\<open>UpdateTokenFunction\<close>. The callback has effects of its own, so
  the function value is the sequence of its results: \<open>f n\<close> is what invocation number
  \<open>n\<close> returns.
\<close>

record token_result =
  accessKeyID :: string
  accessKeySecret :: string
  securityToken :: string
  expireTime :: Time
  token_err :: "error option"

type_synonym UpdateTokenFunction = "nat \<Rightarrow> token_result"

text \<open>
  The fields that \<^verbatim>\<open>CreateTokenAutoUpdateClient\<close> sets; the channel is a handle. The
  fields it leaves at their zero value are not part of the record.
\<close>

record TokenAutoUpdateClient =
  logClient :: Client
  shutdown :: nat
  tokenUpdateFunc :: UpdateTokenFunction
  maxTryTimes :: int
  waitIntervalMin :: Duration
  waitIntervalMax :: Duration
  updateTokenIntervalMin :: Duration
  nextExpire :: Time

text \<open>
  The constructor calls the callback once (invocation 0). The goroutine it starts before
  returning (\<^verbatim>\<open>go tauc.flushSTSToken()\<close>) does not change the value returned and is
  not modelled.
\<close>

definition CreateTokenAutoUpdateClient ::
  "string \<Rightarrow> UpdateTokenFunction \<Rightarrow> nat \<Rightarrow> TokenAutoUpdateClient option \<times> error option" where
  "CreateTokenAutoUpdateClient endpoint tokenUpdateFunc' shutdown' =
     (let r = tokenUpdateFunc' 0
      in case token_err r of
           Some err \<Rightarrow> (None, Some err)
         | None \<Rightarrow>
             (Some \<lparr> logClient = CreateNormalInterface endpoint (accessKeyID r)
                                   (accessKeySecret r) (securityToken r),
                     shutdown = shutdown',
                     tokenUpdateFunc = tokenUpdateFunc',
                     maxTryTimes = 3,
                     waitIntervalMin = Second * 1,
                     waitIntervalMax = Second * 60,
                     updateTokenIntervalMin = Second * 1,
                     nextExpire = expireTime r \<rparr>,
              None))"

text \<open>A token callback that fails, and one that succeeds.\<close>

definition failing_token :: UpdateTokenFunction where
  "failing_token n =
     \<lparr> accessKeyID = [], accessKeySecret = [], securityToken = [], expireTime = 0,
       token_err = Some (External ''sts unavailable'') \<rparr>"

definition fresh_token :: UpdateTokenFunction where
  "fresh_token n =
     \<lparr> accessKeyID = ''ak'', accessKeySecret = ''sk'', securityToken = ''tok'',
       expireTime = 1700000000, token_err = None \<rparr>"

section \<open>The AMQP virtual-host adapter\<close>

subsection \<open>The service and the world it talks to\<close>

type_synonym request = "string \<rightharpoonup> json"

text \<open>
  One call of \<^verbatim>\<open>conn.DoRequest\<close>, argument by argument: action, protocol, method,
  version, auth type, query, body, and the auto-retry flag of the runtime options.
\<close>

record call =
  action :: string
  protocol :: "string option"
  http_method :: string
  version :: string
  authType :: string
  query :: request
  body :: "object option"
  autoretry :: bool

text \<open>What one call returns, and how long it took.\<close>

record reply =
  latency :: Duration
  reply_response :: object
  reply_err :: "error option"

text \<open>
  The service with everything of its client that the adapter uses: the region, the result
  of building the connection (\<open>None\<close> is success), the behaviour of the connection
  (\<open>DoRequest s n c\<close> is the reply to call number \<open>n\<close>, which carries \<open>c\<close>), and the
  provider's classification of errors, \<^verbatim>\<open>NeedRetry\<close>, which is defined outside src/
  and taken as given.
\<close>

record AmqpOpenService =
  RegionId :: string
  NewOnsproxyClient :: "error option"
  DoRequest :: "nat \<Rightarrow> call \<Rightarrow> reply"
  NeedRetry :: "error \<Rightarrow> bool"

text \<open>
  The variables the function changes as it runs (\<open>response\<close>, \<open>err\<close>), the clock in
  nanoseconds since the function was entered, and the calls issued so far, oldest first.
\<close>

record state =
  now :: nat
  calls :: "call list"
  response :: object
  err :: "error option"

subsection \<open>One attempt and the retry around it\<close>

datatype RetryError = RetryableError error | NonRetryableError error

text \<open>
  Modelled from the spec: \<^verbatim>\<open>incrementalWait\<close> is defined in a file that is not under
  src/. The backoff is incremental: the first wait lasts \<open>firstDuration\<close> and every later
  one \<open>increaseDuration\<close> longer than the one before; \<open>retryCount\<close> counts the waits
  from 1.
\<close>

definition incrementalWait :: "Duration \<Rightarrow> Duration \<Rightarrow> nat \<Rightarrow> Duration" where
  "incrementalWait firstDuration increaseDuration retryCount =
     firstDuration + (retryCount - 1) * increaseDuration"

definition ListVirtualHosts :: "request \<Rightarrow> call" where
  "ListVirtualHosts request =
     \<lparr> action = ''ListVirtualHosts'', protocol = None, http_method = ''GET'',
       version = ''2019-12-12'', authType = ''AK'', query = request, body = None,
       autoretry = True \<rparr>"

text \<open>
  The function literal handed to \<^verbatim>\<open>resource.Retry\<close>: one call of \<open>DoRequest\<close>, whose
  results are stored in \<open>response\<close> and \<open>err\<close>; on an error that \<open>NeedRetry\<close>
  accepts, \<open>wait()\<close> sleeps and counts, and the error is reported as retryable.
\<close>

definition attempt ::
  "AmqpOpenService \<Rightarrow> request \<Rightarrow> state \<Rightarrow> nat \<Rightarrow> RetryError option \<times> state \<times> nat" where
  "attempt s request st retryCount =
     (let r = DoRequest s (length (calls st)) (ListVirtualHosts request);
          st1 = st\<lparr> now := now st + latency r,
                    calls := calls st @ [ListVirtualHosts request],
                    response := reply_response r,
                    err := reply_err r \<rparr>
      in case reply_err r of
           Some e \<Rightarrow>
             if NeedRetry s e
             then (Some (RetryableError e),
                   st1\<lparr> now := now st1
                              + incrementalWait (3 * Second) (3 * Second) retryCount \<rparr>,
                   retryCount + 1)
             else (Some (NonRetryableError e), st1, retryCount)
         | None \<Rightarrow> (None, st1, retryCount))"

text \<open>
  Modelled from the spec: \<^verbatim>\<open>resource.Retry\<close> belongs to the plugin SDK and is not under
  src/. It is the bounded retry of the spec: the attempt runs; success and a non-retryable
  error end the loop; after a retryable error the attempt runs again unless the time
  allowed has passed, and then the last error is returned. \<open>deadline\<close> is the clock value
  at which the time allowed is over.
\<close>

function Retry ::
  "AmqpOpenService \<Rightarrow> request \<Rightarrow> nat \<Rightarrow> state \<Rightarrow> nat \<Rightarrow> error option \<times> state" where
  "Retry s request deadline st retryCount =
     (case attempt s request st retryCount of
        (None, st', retryCount') \<Rightarrow> (None, st')
      | (Some (NonRetryableError e), st', retryCount') \<Rightarrow> (Some e, st')
      | (Some (RetryableError e), st', retryCount') \<Rightarrow>
          if now st' < deadline then Retry s request deadline st' retryCount'
          else (Some e, st'))"
  by pat_completeness auto
termination
proof (relation "measure (\<lambda>(s, request, deadline, st, retryCount). deadline - now st)")
  show "wf (measure (\<lambda>(s, request, deadline, st, retryCount). deadline - now st))"
    by simp
next
  fix s request deadline st retryCount x y e st' retryCount' and x2 :: RetryError
  assume "(x, y) = attempt s request st retryCount" "x = Some x2"
    "(st', retryCount') = y" "x2 = RetryableError e" "now st' < deadline"
  then have "now st < now st'"
    by (auto simp: attempt_def Let_def incrementalWait_def Second_def
        split: option.splits if_splits)
  with \<open>now st' < deadline\<close>
  show "((s, request, deadline, st', retryCount'), (s, request, deadline, st, retryCount))
          \<in> measure (\<lambda>(s, request, deadline, st, retryCount). deadline - now st)"
    by simp
qed

declare Retry.simps [simp del]

subsection \<open>Reading one page of the response\<close>

text \<open>A Go index expression \<^verbatim>\<open>xs[i]\<close>: \<open>None\<close> where Go panics.\<close>

fun index :: "'a list \<Rightarrow> nat \<Rightarrow> 'a option" where
  "index xs i = (if i < length xs then Some (xs ! i) else None)"

text \<open>
  Modelled from the spec: \<^verbatim>\<open>jsonpath.Get\<close> is a library that is not under src/. The
  path \<^verbatim>\<open>$.Data.VirtualHosts\<close> is the root followed by two keys; a key is looked up in
  an object, and the lookup fails when the value is not an object or has no such key.
\<close>

fun select_key :: "string \<Rightarrow> json \<Rightarrow> error + json" where
  "select_key k (JObj m) =
     (case map_of m k of None \<Rightarrow> Inl (JsonPathError k) | Some v \<Rightarrow> Inr v)"
| "select_key k v = Inl (JsonPathError k)"

fun jsonpath_Get :: "string list \<Rightarrow> json \<Rightarrow> error + json" where
  "jsonpath_Get [] v = Inr v"
| "jsonpath_Get (k # ks) v =
     (case select_key k v of Inl e \<Rightarrow> Inl e | Inr w \<Rightarrow> jsonpath_Get ks w)"

text \<open>
  The \<^verbatim>\<open>range\<close> loop over the virtual hosts. The type assertions panic on an element
  that is not an object or whose \<^verbatim>\<open>Name\<close> is missing or not a string, and
  \<^verbatim>\<open>parts[1]\<close> panics when there is no second part.
\<close>

datatype scan = Found object | NoMatch | ScanPanic

fun scan_hosts :: "json list \<Rightarrow> string list \<Rightarrow> scan" where
  "scan_hosts [] parts = NoMatch"
| "scan_hosts (v # vs) parts =
     (case v of
        JObj m \<Rightarrow>
          (case map_of m ''Name'' of
             Some (JStr name) \<Rightarrow>
               (case index parts 1 of
                  None \<Rightarrow> ScanPanic
                | Some p1 \<Rightarrow> if name = p1 then Found m else scan_hosts vs parts)
           | _ \<Rightarrow> ScanPanic)
      | _ \<Rightarrow> ScanPanic)"

text \<open>What the function does in the end: it returns an object and an error, or it panics.\<close>

datatype outcome = Return "object option" "error option" | Panic

text \<open>
  \<^verbatim>\<open>WrapErrorf(Error(GetNotFoundMessage("Amqp", id)), NotFoundWithResponse, response)\<close>,
  which the function builds in two places.
\<close>

definition not_found :: "string \<Rightarrow> object \<Rightarrow> error" where
  "not_found id' response' =
     WrapErrorf (Error_GetNotFoundMessage ''Amqp'' id') NotFoundWithResponse
       [ArgResponse response']"

text \<open>
  The body of the \<^verbatim>\<open>for\<close> loop after \<open>resource.Retry\<close> has returned and its result
  is in \<open>err\<close>: the function returns, or the loop goes round with a \<open>NextToken\<close> in the
  request, or the loop is left. (\<^verbatim>\<open>addDebug\<close> only logs.)
\<close>

datatype step = Exit outcome | NextPage request | Break

definition after_Retry :: "string \<Rightarrow> string list \<Rightarrow> request \<Rightarrow> state \<Rightarrow> step" where
  "after_Retry id' parts request st =
     (case err st of
        Some e \<Rightarrow>
          Exit (Return None (Some (WrapErrorf e DefaultErrorMsg
                  [ArgStr id', ArgStr ''ListVirtualHosts'', ArgSource AlibabaCloudSdkGoERROR])))
      | None \<Rightarrow>
          (case jsonpath_Get [''Data'', ''VirtualHosts''] (JObj (response st)) of
             Inl e \<Rightarrow>
               Exit (Return None (Some (WrapErrorf e FailedGetAttributeMsg
                       [ArgStr id', ArgStr ''$.Data.VirtualHosts'', ArgResponse (response st)])))
           | Inr v \<Rightarrow>
               (case v of
                  JArr vs \<Rightarrow>
                    if length vs < 1 then Exit (Return None (Some (not_found id' (response st))))
                    else (case scan_hosts vs parts of
                            Found m \<Rightarrow> Exit (Return (Some m) None)
                          | ScanPanic \<Rightarrow> Exit Panic
                          | NoMatch \<Rightarrow>
                              (case map_of (response st) ''NextToken'' of
                                 Some (JStr nextToken) \<Rightarrow>
                                   if nextToken \<noteq> [] then
                                     NextPage (request(''NextToken'' \<mapsto> JStr nextToken))
                                   else Break
                               | _ \<Rightarrow> Break))
                | _ \<Rightarrow> Exit Panic)))"

subsection \<open>The loop over the pages and the whole function\<close>

text \<open>
  The \<^verbatim>\<open>for\<close> loop has no bound of its own: it runs for as long as the replies carry a
  \<open>NextToken\<close> and no matching host, so its result is optional and \<open>None\<close> is a loop
  that never ends. Each round starts a new \<open>wait\<close> (count 1) and a new \<open>Retry\<close> of
  5 minutes. The loop ends in a \<^verbatim>\<open>return\<close> or in \<^verbatim>\<open>break\<close>, which leaves
  \<open>idExist\<close> to the code after the loop.
\<close>

datatype loop_exit = Returned outcome | Broke bool

partial_function (option) page_loop ::
  "AmqpOpenService \<Rightarrow> string \<Rightarrow> string list \<Rightarrow> bool \<Rightarrow> request \<Rightarrow> state
     \<Rightarrow> (loop_exit \<times> state) option" where
  "page_loop s id' parts idExist request st =
     (case Retry s request (now st + 5 * Minute) st 1 of
        (rerr, st1) \<Rightarrow>
          (case after_Retry id' parts request (st1\<lparr> err := rerr \<rparr>) of
             Exit out \<Rightarrow> Some (Returned out, st1\<lparr> err := rerr \<rparr>)
           | Break \<Rightarrow> Some (Broke idExist, st1\<lparr> err := rerr \<rparr>)
           | NextPage request' \<Rightarrow>
               page_loop s id' parts idExist request' (st1\<lparr> err := rerr \<rparr>)))"

declare page_loop.simps [code]

text \<open>The statements after the loop: not-found unless \<open>idExist\<close>, else the named results.\<close>

fun after_loop :: "string \<Rightarrow> loop_exit \<times> state \<Rightarrow> outcome \<times> state" where
  "after_loop id' (Returned out, st) = (out, st)"
| "after_loop id' (Broke idExist, st) =
     (if \<not> idExist then (Return None (Some (not_found id' (response st))), st)
      else (Return None (err st), st))"

text \<open>The loop, entered with \<open>idExist\<close> false, and the statements after it.\<close>

definition list_pages ::
  "AmqpOpenService \<Rightarrow> string \<Rightarrow> string list \<Rightarrow> request \<Rightarrow> state
     \<Rightarrow> (outcome \<times> state) option" where
  "list_pages s id' parts request st =
     map_option (after_loop id') (page_loop s id' parts False request st)"

definition DescribeAmqpVirtualHost ::
  "AmqpOpenService \<Rightarrow> string \<Rightarrow> (outcome \<times> state) option" where
  "DescribeAmqpVirtualHost s id' =
     (let st0 = \<lparr> now = 0, calls = [], response = [], err = NewOnsproxyClient s \<rparr>
      in case NewOnsproxyClient s of
           Some e \<Rightarrow> Some (Return None (Some (WrapError e)), st0)
         | None \<Rightarrow>
             (case ParseResourceId id' 2 of
                Inl e \<Rightarrow>
                  Some (Return None (Some (WrapError e)), st0\<lparr> err := Some (WrapError e) \<rparr>)
              | Inr parts \<Rightarrow>
                  (case index parts 0 of
                     None \<Rightarrow> Some (Panic, st0)
                   | Some p0 \<Rightarrow>
                       list_pages s id' parts
                         [''RegionId'' \<mapsto> JStr (RegionId s),
                          ''InstanceId'' \<mapsto> JStr p0,
                          ''MaxResults'' \<mapsto> JNum 100]
                         st0)))"

subsection \<open>Retries of the token client\<close>



subsection \<open>A service to run the adapter against\<close>

definition host :: "string \<Rightarrow> json" where
  "host name = JObj [(''Name'', JStr name), (''Status'', JStr ''enable'')]"

definition page :: "string list \<Rightarrow> string \<Rightarrow> reply" where
  "page names token =
     \<lparr> latency = 20000000,
       reply_response =
         [(''Data'', JObj [(''VirtualHosts'', JArr (map host names))]),
          (''NextToken'', JStr token)],
       reply_err = None \<rparr>"

definition failure :: "string \<Rightarrow> reply" where
  "failure code =
     \<lparr> latency = 20000000, reply_response = [], reply_err = Some (External code) \<rparr>"

text \<open>
  The first call is throttled. After that the instance has two pages of virtual hosts;
  the token \<open>t2\<close> leads to an empty page, \<open>t3\<close> to a reply without the list, and any
  other token is refused.
\<close>

definition example_service :: AmqpOpenService where
  "example_service =
     \<lparr> RegionId = ''cn-hangzhou'',
       NewOnsproxyClient = None,
       DoRequest = (\<lambda>n c.
          if n = 0 then failure ''Throttling''
          else if query c ''NextToken'' = None then page [''a'', ''b''] ''t1''
          else if query c ''NextToken'' = Some (JStr ''t1'') then page [''c'', ''vh'', ''d''] []
          else if query c ''NextToken'' = Some (JStr ''t2'') then page [] ''t3''
          else if query c ''NextToken'' = Some (JStr ''t3'')
            then \<lparr> latency = 20000000, reply_response = [(''RequestId'', JStr ''r'')],
                   reply_err = None \<rparr>
          else failure ''InvalidNextToken''),
       NeedRetry = (\<lambda>e. e = External ''Throttling'') \<rparr>"

definition entered :: state where
  "entered = \<lparr> now = 0, calls = [], response = [], err = None \<rparr>"

definition example_request :: request where
  "example_request =
     [''RegionId'' \<mapsto> JStr ''cn-hangzhou'', ''InstanceId'' \<mapsto> JStr ''amqp-1'',
      ''MaxResults'' \<mapsto> JNum 100]"

text \<open>States of the function on its way through the example: after one call, after the
  first page has been read, and after the second.\<close>

definition after_first_call :: state where
  "after_first_call =
     \<lparr> now = 5, calls = [ListVirtualHosts example_request], response = [], err = None \<rparr>"

text \<open>A service that throttles every call and answers at once.\<close>

definition throttled_service :: AmqpOpenService where
  "throttled_service =
     \<lparr> RegionId = ''cn-hangzhou'',
       NewOnsproxyClient = None,
       DoRequest = (\<lambda>n c. \<lparr> latency = 0, reply_response = [],
                              reply_err = Some (External ''Throttling'') \<rparr>),
       NeedRetry = (\<lambda>e. e = External ''Throttling'') \<rparr>"

definition after_first_page :: state where
  "after_first_page =
     \<lparr> now = 3040000000,
       calls = [ListVirtualHosts example_request, ListVirtualHosts example_request],
       response = reply_response (page [''a'', ''b''] ''t1''),
       err = None \<rparr>"

definition after_second_page :: state where
  "after_second_page =
     \<lparr> now = 3060000000,
       calls = [ListVirtualHosts example_request, ListVirtualHosts example_request,
                ListVirtualHosts (example_request(''NextToken'' \<mapsto> JStr ''t1''))],
       response = reply_response (page [''c'', ''vh'', ''d''] []),
       err = None \<rparr>"

text \<open>A service whose every page holds one host and the token of a next page.\<close>

definition endless_service :: AmqpOpenService where
  "endless_service =
     \<lparr> RegionId = ''cn-hangzhou'',
       NewOnsproxyClient = None,
       DoRequest = (\<lambda>n c. page [''a''] ''t''),
       NeedRetry = (\<lambda>e. e = External ''Throttling'') \<rparr>"

section \<open>Properties of resource ids\<close>

lemma Split_not_Nil: "Split sep s \<noteq> []"
  by (induction s) (auto split: list.splits)



lemma ParseResourceId_length:
  "ParseResourceId id' n = Inr parts \<Longrightarrow> length parts = n"
  by (auto simp: ParseResourceId_def Let_def split: if_splits)



section \<open>Properties of the token client constructor\<close>

text \<open>
  C10: when the first call of the token callback fails, the constructor returns no client
  and that error; otherwise it returns a client whose inner client is
  \<open>CreateNormalInterface\<close> of the endpoint and the fetched credentials, with
  \<open>maxTryTimes = 3\<close>, wait interval bounds of 1 and 60 seconds, and \<open>nextExpire\<close> the
  fetched expire time.
\<close>

theorem CreateTokenAutoUpdateClient_result:
  "(token_err (f 0) = Some e \<longrightarrow>
      CreateTokenAutoUpdateClient endpoint f sd = (None, Some e)) \<and>
   (token_err (f 0) = None \<longrightarrow>
      (\<exists>c. CreateTokenAutoUpdateClient endpoint f sd = (Some c, None) \<and>
           logClient c = CreateNormalInterface endpoint (accessKeyID (f 0))
                           (accessKeySecret (f 0)) (securityToken (f 0)) \<and>
           maxTryTimes c = 3 \<and>
           waitIntervalMin c = 1 * Second \<and>
           waitIntervalMax c = 60 * Second \<and>
           nextExpire c = expireTime (f 0)))"
  by (simp add: CreateTokenAutoUpdateClient_def Let_def)

theorem CreateTokenAutoUpdateClient_result_witness:
  "CreateTokenAutoUpdateClient ''cn-hangzhou.log.aliyuncs.com'' failing_token 7
     = (None, Some (External ''sts unavailable'')) \<and>
   (\<exists>c. CreateTokenAutoUpdateClient ''cn-hangzhou.log.aliyuncs.com'' fresh_token 7
           = (Some c, None) \<and>
        logClient c = CreateNormalInterface ''cn-hangzhou.log.aliyuncs.com''
                        ''ak'' ''sk'' ''tok'' \<and>
        maxTryTimes c = 3 \<and>
        waitIntervalMin c = 1000000000 \<and>
        waitIntervalMax c = 60000000000 \<and>
        nextExpire c = 1700000000)"
  using
    CreateTokenAutoUpdateClient_result
      [of failing_token "External ''sts unavailable''" "''cn-hangzhou.log.aliyuncs.com''" 7]
    CreateTokenAutoUpdateClient_result
      [of fresh_token "External ''unused''" "''cn-hangzhou.log.aliyuncs.com''" 7]
  by (simp add: failing_token_def fresh_token_def Second_def)

section \<open>Properties of the retry\<close>

lemma attempt_calls:
  "attempt s request st k = (r, st', k') \<Longrightarrow> calls st' = calls st @ [ListVirtualHosts request]"
  by (auto simp: attempt_def Let_def split: option.splits if_splits)

lemma attempt_err:
  "attempt s request st k = (r, st', k') \<Longrightarrow>
     err st' = (case r of None \<Rightarrow> None | Some (RetryableError e) \<Rightarrow> Some e
                | Some (NonRetryableError e) \<Rightarrow> Some e)"
  by (auto simp: attempt_def Let_def split: option.splits if_splits)

lemma Retry_success:
  "attempt s request st k = (None, st', k') \<Longrightarrow> Retry s request deadline st k = (None, st')"
  by (simp add: Retry.simps)

lemma Retry_terminal:
  "attempt s request st k = (Some (NonRetryableError e), st', k') \<Longrightarrow>
     Retry s request deadline st k = (Some e, st')"
  by (simp add: Retry.simps)

lemma Retry_timeout:
  "attempt s request st k = (Some (RetryableError e), st', k') \<Longrightarrow> \<not> now st' < deadline \<Longrightarrow>
     Retry s request deadline st k = (Some e, st')"
  by (simp add: Retry.simps)

lemma Retry_again:
  "attempt s request st k = (Some (RetryableError e), st', k') \<Longrightarrow> now st' < deadline \<Longrightarrow>
     Retry s request deadline st k = Retry s request deadline st' k'"
  by (simp add: Retry.simps)

lemma Retry_induct [consumes 0, case_names round]:
  assumes "\<And>st k. (\<And>e st' k'. attempt s request st k = (Some (RetryableError e), st', k')
                       \<Longrightarrow> now st' < deadline \<Longrightarrow> P st' k') \<Longrightarrow> P st k"
  shows "P st k"
proof -
  have "s' = s \<Longrightarrow> request' = request \<Longrightarrow> deadline' = deadline \<Longrightarrow> P st k"
    for s' request' deadline'
  proof (induction s' request' deadline' st k rule: Retry.induct)
    case (1 s' request' deadline' st retryCount)
    show ?case
    proof (rule assms)
      fix e st' k'
      assume "attempt s request st retryCount = (Some (RetryableError e), st', k')"
        "now st' < deadline"
      then show "P st' k'"
        using "1.IH" [of "Some (RetryableError e)" "(st', k')" "RetryableError e" e st' k']
          "1.prems"
        by simp
    qed
  qed
  then show ?thesis by simp
qed

lemma Retry_cases [consumes 1, case_names success terminal timeout again]:
  assumes "Retry s request deadline st k = (r, st')"
    and "\<And>k'. attempt s request st k = (None, st', k') \<Longrightarrow> r = None \<Longrightarrow> Q"
    and "\<And>e k'. attempt s request st k = (Some (NonRetryableError e), st', k') \<Longrightarrow>
           r = Some e \<Longrightarrow> Q"
    and "\<And>e k'. attempt s request st k = (Some (RetryableError e), st', k') \<Longrightarrow>
           \<not> now st' < deadline \<Longrightarrow> r = Some e \<Longrightarrow> Q"
    and "\<And>e st1 k1. attempt s request st k = (Some (RetryableError e), st1, k1) \<Longrightarrow>
           now st1 < deadline \<Longrightarrow> Retry s request deadline st1 k1 = (r, st') \<Longrightarrow> Q"
  shows Q
proof -
  obtain x st1 k1 where a: "attempt s request st k = (x, st1, k1)"
    by (cases "attempt s request st k") auto
  show ?thesis
  proof (cases x)
    case None
    with a assms(1) assms(2) show ?thesis
      by (simp add: Retry_success)
  next
    case (Some re)
    show ?thesis
    proof (cases re)
      case (NonRetryableError e)
      with Some a assms(1) assms(3) show ?thesis
        by (simp add: Retry_terminal)
    next
      case (RetryableError e)
      show ?thesis
      proof (cases "now st1 < deadline")
        case True
        with RetryableError Some a assms(1) assms(5) show ?thesis
          by (simp add: Retry_again)
      next
        case False
        with RetryableError Some a assms(1) assms(4) show ?thesis
          by (simp add: Retry_timeout)
      qed
    qed
  qed
qed

lemma Retry_calls:
  "Retry s request deadline st k = (r, st') \<Longrightarrow>
     \<exists>n. calls st' = calls st @ replicate (Suc n) (ListVirtualHosts request)"
proof (induction st k rule: Retry_induct [where s = s and request = request and deadline = deadline])
  case (round st k)
  from round.prems show ?case
  proof (cases rule: Retry_cases)
    case (again e st1 k1)
    from round.IH [OF again] obtain n
      where "calls st' = calls st1 @ replicate (Suc n) (ListVirtualHosts request)"
      by blast
    with attempt_calls [OF again(1)]
    have "calls st' = calls st @ replicate (Suc (Suc n)) (ListVirtualHosts request)"
      by simp
    then show ?thesis by blast
  qed (auto dest: attempt_calls intro: exI [of _ 0])
qed

lemma Retry_err: "Retry s request deadline st k = (r, st') \<Longrightarrow> err st' = r"
proof (induction st k rule: Retry_induct [where s = s and request = request and deadline = deadline])
  case (round st k)
  from round.prems show ?case
  proof (cases rule: Retry_cases)
    case (again e st1 k1)
    then show ?thesis
      using round.IH by blast
  qed (auto dest: attempt_err)
qed






section \<open>Properties of the loop over the pages\<close>

lemma page_loop_unfold:
  assumes "Retry s request (now st + 5 * Minute) st 1 = (rerr, st1)"
  shows "page_loop s id' parts b request st =
     (case after_Retry id' parts request st1 of
        Exit out \<Rightarrow> Some (Returned out, st1)
      | Break \<Rightarrow> Some (Broke b, st1)
      | NextPage request' \<Rightarrow> page_loop s id' parts b request' st1)"
proof -
  have "st1\<lparr> err := rerr \<rparr> = st1"
    using Retry_err [OF assms] by simp
  then show ?thesis
    using assms by (subst page_loop.simps) (simp split: step.splits)
qed

lemma scan_hosts_Found_Name:
  "scan_hosts vs parts = Found m \<Longrightarrow> \<exists>name. map_of m ''Name'' = Some (JStr name)"
proof (induction vs)
  case Nil
  then show ?case by simp
next
  case (Cons v vs)
  show ?case
  proof (cases v)
    case (JObj m')
    show ?thesis
    proof (cases "map_of m' ''Name''")
      case None
      with JObj Cons.prems show ?thesis by simp
    next
      case (Some n)
      show ?thesis
      proof (cases n)
        case (JStr name)
        show ?thesis
        proof (cases "index parts 1")
          case None
          with JObj Some JStr Cons.prems show ?thesis
            by (simp del: index.simps)
        next
          case p1: (Some p1)
          show ?thesis
          proof (cases "name = p1")
            case True
            with JObj Some JStr p1 Cons.prems have "m = m'"
              by (simp del: index.simps)
            with Some JStr show ?thesis by simp
          next
            case False
            with JObj Some JStr p1 Cons.prems have "scan_hosts vs parts = Found m"
              by (simp del: index.simps)
            then show ?thesis by (rule Cons.IH)
          qed
        qed
      qed (use JObj Some Cons.prems in simp_all)
    qed
  qed (use Cons.prems in simp_all)
qed

lemma after_Retry_Exit_shape:
  "after_Retry id' parts request st = Exit (Return obj e) \<Longrightarrow>
     (\<exists>m. obj = Some m \<and> e = None) \<or> (obj = None \<and> (\<exists>c m a. e = Some (WrapErrorf c m a)))"
  by (auto simp: after_Retry_def not_found_def
      split: option.splits sum.splits json.splits if_splits scan.splits)

lemma after_Retry_Found:
  "after_Retry id' parts request st = Exit (Return (Some m) e) \<Longrightarrow>
     \<exists>vs. scan_hosts vs parts = Found m"
  by (auto simp: after_Retry_def not_found_def
      split: option.splits sum.splits json.splits if_splits scan.splits)

lemma after_Retry_Exit:
  assumes "after_Retry id' parts request st = Exit (Return obj e)"
  shows "(\<exists>m. obj = Some m \<and> m \<noteq> [] \<and> e = None) \<or>
         (obj = None \<and> (\<exists>c m a. e = Some (WrapErrorf c m a)))"
proof (cases obj)
  case None
  with after_Retry_Exit_shape [OF assms] show ?thesis
    by auto
next
  case (Some m)
  with after_Retry_Exit_shape [OF assms] have e: "e = None"
    by auto
  from assms Some after_Retry_Found obtain vs where "scan_hosts vs parts = Found m"
    by blast
  from scan_hosts_Found_Name [OF this] have "m \<noteq> []"
    by auto
  with Some e show ?thesis
    by simp
qed

lemma page_loop_exit_aux:
  assumes "page_loop s id' parts b request st = Some y"
  shows "case fst y of
        Broke b' \<Rightarrow> b' = b
      | Returned out \<Rightarrow> (\<exists>request' st1. after_Retry id' parts request' st1 = Exit out)"
proof (rule page_loop.raw_induct
    [where P = "\<lambda>s id' parts b request st y. case fst y of
        Broke b' \<Rightarrow> b' = b
      | Returned out \<Rightarrow> (\<exists>request' st1. after_Retry id' parts request' st1 = Exit out)",
     OF _ assms], goal_cases)
  case (1 page_loop s id' parts idExist request st y)
  obtain rerr st1 where r: "Retry s request (now st + 5 * Minute) st 1 = (rerr, st1)"
    by (cases "Retry s request (now st + 5 * Minute) st 1") auto
  show ?case
  proof (cases "after_Retry id' parts request (st1\<lparr>err := rerr\<rparr>)")
    case (Exit out)
    with 1(2) r have "fst y = Returned out" by auto
    with Exit show ?thesis by auto
  next
    case (NextPage request')
    with 1(2) r have "page_loop s id' parts idExist request' (st1\<lparr>err := rerr\<rparr>) = Some y"
      by simp
    then show ?thesis by (rule 1(1))
  next
    case Break
    with 1(2) r show ?thesis by auto
  qed
qed

lemma page_loop_exit:
  "page_loop s id' parts b request st = Some (x, st') \<Longrightarrow>
     (case x of
        Broke b' \<Rightarrow> b' = b
      | Returned out \<Rightarrow> (\<exists>request' st1. after_Retry id' parts request' st1 = Exit out))"
  using page_loop_exit_aux [of s id' parts b request st "(x, st')"] by simp

lemma page_loop_calls_aux:
  assumes "page_loop s id' parts b request st = Some y"
  shows "\<exists>rest. calls (snd y) = calls st @ ListVirtualHosts request # rest"
proof (rule page_loop.raw_induct
    [where P = "\<lambda>s id' parts b request st y.
        \<exists>rest. calls (snd y) = calls st @ ListVirtualHosts request # rest",
     OF _ assms], goal_cases)
  case (1 page_loop s id' parts idExist request st y)
  obtain rerr st1 where r: "Retry s request (now st + 5 * Minute) st 1 = (rerr, st1)"
    by (cases "Retry s request (now st + 5 * Minute) st 1") auto
  from Retry_calls [OF r] obtain n
    where c: "calls st1 = calls st @ ListVirtualHosts request # replicate n (ListVirtualHosts request)"
    by auto
  show ?case
  proof (cases "after_Retry id' parts request (st1\<lparr>err := rerr\<rparr>)")
    case (Exit out)
    with 1(2) r c show ?thesis by auto
  next
    case (NextPage request')
    with 1(2) r have "page_loop s id' parts idExist request' (st1\<lparr>err := rerr\<rparr>) = Some y"
      by simp
    from 1(1) [OF this] c show ?thesis by auto
  next
    case Break
    with 1(2) r c show ?thesis by auto
  qed
qed

lemma after_loop_calls: "calls (snd (after_loop id' y)) = calls (snd y)"
  by (cases "(id', y)" rule: after_loop.cases) auto

lemma list_pages_calls:
  "list_pages s id' parts request st = Some (out, st') \<Longrightarrow>
     \<exists>rest. calls st' = calls st @ ListVirtualHosts request # rest"
proof -
  assume "list_pages s id' parts request st = Some (out, st')"
  then obtain y where p: "page_loop s id' parts False request st = Some y"
    and a: "after_loop id' y = (out, st')"
    by (auto simp: list_pages_def)
  from after_loop_calls [of id' y] a have "calls st' = calls (snd y)"
    by simp
  with page_loop_calls_aux [OF p] show ?thesis
    by simp
qed

lemma list_pages_Return:
  assumes "list_pages s id' parts request st = Some (Return obj e, st')"
  shows "(\<exists>m. obj = Some m \<and> m \<noteq> [] \<and> e = None) \<or>
         (obj = None \<and> (\<exists>c m a. e = Some (WrapErrorf c m a)))"
proof -
  from assms obtain x st1 where p: "page_loop s id' parts False request st = Some (x, st1)"
    and a: "after_loop id' (x, st1) = (Return obj e, st')"
    by (auto simp: list_pages_def)
  show ?thesis
  proof (cases x)
    case (Returned out)
    with page_loop_exit [OF p] a after_Retry_Exit show ?thesis
      by fastforce
  next
    case (Broke b')
    with page_loop_exit [OF p] have "b' = False" by simp
    with Broke a show ?thesis
      by (auto simp: not_found_def)
  qed
qed

lemma DescribeAmqpVirtualHost_Return:
  assumes "DescribeAmqpVirtualHost s id' = Some (Return obj e, st)"
  shows "(\<exists>m. obj = Some m \<and> m \<noteq> [] \<and> e = None) \<or>
         (obj = None \<and> (\<exists>c. e = Some (WrapError c) \<or> (\<exists>m a. e = Some (WrapErrorf c m a))))"
proof (cases "NewOnsproxyClient s")
  case (Some ce)
  with assms have "obj = None" "e = Some (WrapError ce)"
    by (auto simp: DescribeAmqpVirtualHost_def)
  then show ?thesis
    by blast
next
  case None
  show ?thesis
  proof (cases "ParseResourceId id' 2")
    case (Inl pe)
    with None assms have "obj = None" "e = Some (WrapError pe)"
      by (auto simp: DescribeAmqpVirtualHost_def)
    then show ?thesis
      by blast
  next
    case (Inr parts)
    show ?thesis
    proof (cases "index parts 0")
      case no: None
      with None Inr assms show ?thesis
        by (simp add: DescribeAmqpVirtualHost_def del: index.simps)
    next
      case (Some p0)
      with None Inr assms
      have "list_pages s id' parts
              [''RegionId'' \<mapsto> JStr (RegionId s), ''InstanceId'' \<mapsto> JStr p0,
               ''MaxResults'' \<mapsto> JNum 100]
              \<lparr> now = 0, calls = [], response = [], err = None \<rparr>
            = Some (Return obj e, st)"
        by (simp add: DescribeAmqpVirtualHost_def del: index.simps)
      from list_pages_Return [OF this] show ?thesis
        by blast
    qed
  qed
qed

lemma scan_hosts_NoMatch:
  "\<forall>v\<in>set vs. \<exists>m n. v = JObj m \<and> map_of m ''Name'' = Some (JStr n) \<and> n \<noteq> p1 \<Longrightarrow>
     scan_hosts vs [p0, p1] = NoMatch"
  by (induction vs) auto

lemma scan_hosts_Found:
  "\<forall>v\<in>set pre. \<exists>m' n. v = JObj m' \<and> map_of m' ''Name'' = Some (JStr n) \<and> n \<noteq> p1 \<Longrightarrow>
   map_of m ''Name'' = Some (JStr p1) \<Longrightarrow>
     scan_hosts (pre @ JObj m # post) [p0, p1] = Found m"
  by (induction pre) auto

lemma list_pages_unfold:
  assumes "Retry s request (now st + 5 * Minute) st 1 = (rerr, st1)"
  shows "list_pages s id' parts request st =
     (case after_Retry id' parts request st1 of
        Exit out \<Rightarrow> Some (out, st1)
      | Break \<Rightarrow> Some (Return None (Some (not_found id' (response st1))), st1)
      | NextPage request' \<Rightarrow> list_pages s id' parts request' st1)"
  by (simp add: list_pages_def page_loop_unfold [OF assms] split: step.splits)

lemma list_pages_request_error:
  assumes "Retry s request (now st + 5 * Minute) st 1 = (Some e, st1)"
  shows "list_pages s id' parts request st =
     Some (Return None (Some (WrapErrorf e DefaultErrorMsg
             [ArgStr id', ArgStr ''ListVirtualHosts'', ArgSource AlibabaCloudSdkGoERROR])), st1)"
  using Retry_err [OF assms]
  by (simp add: list_pages_unfold [OF assms] after_Retry_def)

text \<open>
  C1: for every id that does not parse into exactly two parts, the function returns no
  object and a wrapped error, and issues no request: the list of calls is empty. The error
  wrapped is the parse error whenever the connection could be built (a failure to build
  it is reported first, wrapped as well).
\<close>

theorem parse_failure_issues_no_request:
  assumes "ParseResourceId id' 2 = Inl pe"
  shows "\<exists>e st. DescribeAmqpVirtualHost s id' = Some (Return None (Some (WrapError e)), st) \<and>
           calls st = [] \<and> (NewOnsproxyClient s = None \<longrightarrow> e = pe)"
  using assms by (auto simp: DescribeAmqpVirtualHost_def Let_def split: option.splits)

theorem parse_failure_issues_no_request_witness:
  "ParseResourceId ''amqp-1'' 2 = Inl (InvalidResourceId ''amqp-1'' 2 1) \<and>
   NewOnsproxyClient example_service = None \<and>
   (\<exists>st. DescribeAmqpVirtualHost example_service ''amqp-1''
           = Some (Return None (Some (WrapError (InvalidResourceId ''amqp-1'' 2 1))), st) \<and>
         calls st = [])"
proof -
  have p: "ParseResourceId ''amqp-1'' 2 = Inl (InvalidResourceId ''amqp-1'' 2 1)"
    by (simp add: ParseResourceId_def)
  have c: "NewOnsproxyClient example_service = None"
    by (simp add: example_service_def)
  from parse_failure_issues_no_request [OF p, of example_service] c p show ?thesis
    by auto
qed

text \<open>
  C2: for an id of two parts, every call issued before the first page is read is the GET
  action \<open>ListVirtualHosts\<close> of version 2019-12-12 whose request holds exactly
  \<open>RegionId\<close> (the client's region), \<open>InstanceId\<close> (the first part) and
  \<open>MaxResults = 100\<close>; when the request succeeds and the list of virtual hosts has an
  element named like the second part, the function returns the first such element and no
  error.
\<close>

theorem DescribeAmqpVirtualHost_returns_first_match:
  assumes "NewOnsproxyClient s = None"
    and "ParseResourceId id' 2 = Inr [p0, p1]"
    and "Retry s [''RegionId'' \<mapsto> JStr (RegionId s), ''InstanceId'' \<mapsto> JStr p0,
                  ''MaxResults'' \<mapsto> JNum 100]
           (5 * Minute) \<lparr> now = 0, calls = [], response = [], err = None \<rparr> 1 = (None, st1)"
    and "jsonpath_Get [''Data'', ''VirtualHosts''] (JObj (response st1))
           = Inr (JArr (pre @ JObj m # post))"
    and "\<forall>v\<in>set pre. \<exists>m' n. v = JObj m' \<and> map_of m' ''Name'' = Some (JStr n) \<and> n \<noteq> p1"
    and "map_of m ''Name'' = Some (JStr p1)"
  shows "DescribeAmqpVirtualHost s id' = Some (Return (Some m) None, st1) \<and>
         (\<exists>n. calls st1 = replicate (Suc n)
            \<lparr> action = ''ListVirtualHosts'', protocol = None, http_method = ''GET'',
              version = ''2019-12-12'', authType = ''AK'',
              query = [''RegionId'' \<mapsto> JStr (RegionId s), ''InstanceId'' \<mapsto> JStr p0,
                       ''MaxResults'' \<mapsto> JNum 100],
              body = None, autoretry = True \<rparr>)"
proof -
  let ?request = "[''RegionId'' \<mapsto> JStr (RegionId s), ''InstanceId'' \<mapsto> JStr p0,
                   ''MaxResults'' \<mapsto> JNum 100]"
  let ?st0 = "\<lparr> now = 0, calls = [], response = [], err = None \<rparr>"
  have r: "Retry s ?request (now ?st0 + 5 * Minute) ?st0 1 = (None, st1)"
    using assms(3) by simp
  have e: "err st1 = None"
    using Retry_err [OF r] .
  have "after_Retry id' [p0, p1] ?request st1 = Exit (Return (Some m) None)"
    using e assms(4) scan_hosts_Found [OF assms(5,6)]
    by (simp add: after_Retry_def)
  then have "list_pages s id' [p0, p1] ?request ?st0 = Some (Return (Some m) None, st1)"
    by (simp add: list_pages_unfold [OF r])
  then have "DescribeAmqpVirtualHost s id' = Some (Return (Some m) None, st1)"
    using assms(1,2) by (simp add: DescribeAmqpVirtualHost_def)
  moreover from Retry_calls [OF r]
  have "\<exists>n. calls st1 = replicate (Suc n) (ListVirtualHosts ?request)"
    by simp
  ultimately show ?thesis
    by (simp add: ListVirtualHosts_def)
qed

lemmas example_defs =
  example_service_def failure_def page_def host_def ListVirtualHosts_def
  incrementalWait_def Second_def Minute_def attempt_def Let_def

lemma example_first_page:
  "Retry example_service example_request (5 * Minute) entered 1 =
     (None,
      \<lparr> now = 3040000000,
        calls = [ListVirtualHosts example_request, ListVirtualHosts example_request],
        response = reply_response (page [''a'', ''b''] ''t1''),
        err = None \<rparr>)"
  by (simp add: Retry.simps example_defs entered_def example_request_def)

theorem DescribeAmqpVirtualHost_returns_first_match_witness:
  "DescribeAmqpVirtualHost example_service ''amqp-1:b'' =
     Some (Return (Some [(''Name'', JStr ''b''), (''Status'', JStr ''enable'')]) None,
           \<lparr> now = 3040000000,
             calls = [ListVirtualHosts example_request, ListVirtualHosts example_request],
             response = reply_response (page [''a'', ''b''] ''t1''),
             err = None \<rparr>)"
proof -
  have c: "NewOnsproxyClient example_service = None"
    by (simp add: example_service_def)
  have p: "ParseResourceId ''amqp-1:b'' 2 = Inr [''amqp-1'', ''b'']"
    by (simp add: ParseResourceId_def)
  have r: "Retry example_service
             [''RegionId'' \<mapsto> JStr (RegionId example_service),
              ''InstanceId'' \<mapsto> JStr ''amqp-1'', ''MaxResults'' \<mapsto> JNum 100]
             (5 * Minute) \<lparr> now = 0, calls = [], response = [], err = None \<rparr> 1 =
           (None,
            \<lparr> now = 3040000000,
              calls = [ListVirtualHosts example_request, ListVirtualHosts example_request],
              response = reply_response (page [''a'', ''b''] ''t1''),
              err = None \<rparr>)"
    using example_first_page
    by (simp add: entered_def example_request_def example_service_def)
  have j: "jsonpath_Get [''Data'', ''VirtualHosts'']
             (JObj (response
               \<lparr> now = 3040000000,
                 calls = [ListVirtualHosts example_request, ListVirtualHosts example_request],
                 response = reply_response (page [''a'', ''b''] ''t1''),
                 err = None \<rparr>))
           = Inr (JArr ([host ''a''] @ JObj [(''Name'', JStr ''b''), (''Status'', JStr ''enable'')] # []))"
    by (simp add: page_def host_def)
  have pre: "\<forall>v\<in>set [host ''a'']. \<exists>m' n. v = JObj m' \<and> map_of m' ''Name'' = Some (JStr n) \<and> n \<noteq> ''b''"
    by (simp add: host_def)
  have m: "map_of [(''Name'', JStr ''b''), (''Status'', JStr ''enable'')] ''Name'' = Some (JStr ''b'')"
    by simp
  from DescribeAmqpVirtualHost_returns_first_match [OF c p r j pre m]
  show ?thesis
    by simp
qed

text \<open>
  C3: in one attempt an error of \<open>DoRequest\<close> is reported as retryable, after the
  backoff wait, exactly when \<open>NeedRetry\<close> accepts it, and the retry then runs the
  attempt again; any other error ends the retry at once with that error and no wait; and
  the error with which the retry ends is returned wrapped with the id and the action name.
\<close>

theorem attempt_classifies_errors:
  "let r = DoRequest s (length (calls st)) (ListVirtualHosts request);
       st1 = st\<lparr> now := now st + latency r,
                 calls := calls st @ [ListVirtualHosts request],
                 response := reply_response r,
                 err := reply_err r \<rparr>;
       st2 = st1\<lparr> now := now st1 + incrementalWait (3 * Second) (3 * Second) k \<rparr>
   in (\<forall>e. reply_err r = Some e \<and> NeedRetry s e \<longrightarrow>
          attempt s request st k = (Some (RetryableError e), st2, k + 1) \<and>
          (now st2 < deadline \<longrightarrow>
             Retry s request deadline st k = Retry s request deadline st2 (k + 1))) \<and>
      (\<forall>e. reply_err r = Some e \<and> \<not> NeedRetry s e \<longrightarrow>
          attempt s request st k = (Some (NonRetryableError e), st1, k) \<and>
          Retry s request deadline st k = (Some e, st1)) \<and>
      (reply_err r = None \<longrightarrow>
          attempt s request st k = (None, st1, k) \<and>
          Retry s request deadline st k = (None, st1)) \<and>
      (\<forall>e st'. Retry s request (now st + 5 * Minute) st 1 = (Some e, st') \<longrightarrow>
          list_pages s id' parts request st =
            Some (Return None (Some (WrapErrorf e DefaultErrorMsg
                    [ArgStr id', ArgStr ''ListVirtualHosts'',
                     ArgSource AlibabaCloudSdkGoERROR])), st'))"
proof -
  define r where "r = DoRequest s (length (calls st)) (ListVirtualHosts request)"
  define st1 where "st1 = st\<lparr> now := now st + latency r,
                 calls := calls st @ [ListVirtualHosts request],
                 response := reply_response r,
                 err := reply_err r \<rparr>"
  define st2 where "st2 = st1\<lparr> now := now st1 + incrementalWait (3 * Second) (3 * Second) k \<rparr>"
  have retryable: "attempt s request st k = (Some (RetryableError e), st2, k + 1)"
    if "reply_err r = Some e" "NeedRetry s e" for e
    using that by (simp add: attempt_def r_def st1_def st2_def Let_def)
  have terminal: "attempt s request st k = (Some (NonRetryableError e), st1, k)"
    if "reply_err r = Some e" "\<not> NeedRetry s e" for e
    using that by (simp add: attempt_def r_def st1_def Let_def)
  have success: "attempt s request st k = (None, st1, k)"
    if "reply_err r = None"
    using that by (simp add: attempt_def r_def st1_def Let_def)
  have "(\<forall>e. reply_err r = Some e \<and> NeedRetry s e \<longrightarrow>
          attempt s request st k = (Some (RetryableError e), st2, k + 1) \<and>
          (now st2 < deadline \<longrightarrow>
             Retry s request deadline st k = Retry s request deadline st2 (k + 1)))"
    using retryable Retry_again by blast
  moreover have "(\<forall>e. reply_err r = Some e \<and> \<not> NeedRetry s e \<longrightarrow>
          attempt s request st k = (Some (NonRetryableError e), st1, k) \<and>
          Retry s request deadline st k = (Some e, st1))"
    using terminal Retry_terminal by blast
  moreover have "(reply_err r = None \<longrightarrow>
          attempt s request st k = (None, st1, k) \<and>
          Retry s request deadline st k = (None, st1))"
    using success Retry_success by blast
  moreover have "(\<forall>e st'. Retry s request (now st + 5 * Minute) st 1 = (Some e, st') \<longrightarrow>
          list_pages s id' parts request st =
            Some (Return None (Some (WrapErrorf e DefaultErrorMsg
                    [ArgStr id', ArgStr ''ListVirtualHosts'',
                     ArgSource AlibabaCloudSdkGoERROR])), st'))"
    using list_pages_request_error by blast
  ultimately show ?thesis
    unfolding Let_def r_def st1_def st2_def by blast
qed

theorem attempt_classifies_errors_witness:
  "attempt example_service example_request entered 1 =
     (Some (RetryableError (External ''Throttling'')),
      \<lparr> now = 3020000000, calls = [ListVirtualHosts example_request], response = [],
        err = Some (External ''Throttling'') \<rparr>, 2) \<and>
   Retry example_service (example_request(''NextToken'' \<mapsto> JStr ''zz''))
       (now after_first_call + 5 * Minute) after_first_call 1 =
     (Some (External ''InvalidNextToken''),
      \<lparr> now = 20000005,
        calls = [ListVirtualHosts example_request,
                 ListVirtualHosts (example_request(''NextToken'' \<mapsto> JStr ''zz''))],
        response = [], err = Some (External ''InvalidNextToken'') \<rparr>) \<and>
   list_pages example_service ''amqp-1:vh'' [''amqp-1'', ''vh'']
       (example_request(''NextToken'' \<mapsto> JStr ''zz'')) after_first_call =
     Some (Return None (Some (WrapErrorf (External ''InvalidNextToken'') DefaultErrorMsg
             [ArgStr ''amqp-1:vh'', ArgStr ''ListVirtualHosts'',
              ArgSource AlibabaCloudSdkGoERROR])),
      \<lparr> now = 20000005,
        calls = [ListVirtualHosts example_request,
                 ListVirtualHosts (example_request(''NextToken'' \<mapsto> JStr ''zz''))],
        response = [], err = Some (External ''InvalidNextToken'') \<rparr>)"
proof -
  note retryable =
    attempt_classifies_errors
      [where s = example_service and st = entered and request = example_request and k = 1,
       unfolded Let_def, THEN conjunct1, rule_format,
       where e = "External ''Throttling''"]
  note terminal =
    attempt_classifies_errors
      [where s = example_service and st = after_first_call and k = 1
         and request = "example_request(''NextToken'' \<mapsto> JStr ''zz'')"
         and deadline = "now after_first_call + 5 * Minute",
       unfolded Let_def, THEN conjunct2, THEN conjunct1, rule_format,
       where e = "External ''InvalidNextToken''"]
  note wrapped =
    attempt_classifies_errors
      [where s = example_service and st = after_first_call and k = 1
         and request = "example_request(''NextToken'' \<mapsto> JStr ''zz'')"
         and id' = "''amqp-1:vh''" and parts = "[''amqp-1'', ''vh'']",
       unfolded Let_def, THEN conjunct2, THEN conjunct2, THEN conjunct2, rule_format]
  have a: "attempt example_service example_request entered 1 =
     (Some (RetryableError (External ''Throttling'')),
      \<lparr> now = 3020000000, calls = [ListVirtualHosts example_request], response = [],
        err = Some (External ''Throttling'') \<rparr>, 2)"
    using retryable
    by (simp add: example_service_def failure_def entered_def incrementalWait_def Second_def)
  have r: "Retry example_service (example_request(''NextToken'' \<mapsto> JStr ''zz''))
       (now after_first_call + 5 * Minute) after_first_call 1 =
     (Some (External ''InvalidNextToken''),
      \<lparr> now = 20000005,
        calls = [ListVirtualHosts example_request,
                 ListVirtualHosts (example_request(''NextToken'' \<mapsto> JStr ''zz''))],
        response = [], err = Some (External ''InvalidNextToken'') \<rparr>)"
    using terminal
    by (simp add: example_service_def failure_def after_first_call_def ListVirtualHosts_def
        example_request_def)
  from a r wrapped [OF r] show ?thesis
    by simp
qed



text \<open>The bound is reached: throttled at every call, the retry issues 14 calls.\<close>

lemma throttled_attempt:
  "attempt throttled_service request st k =
     (Some (RetryableError (External ''Throttling'')),
      st\<lparr> now := now st + 3000000000 * k,
          calls := calls st @ [ListVirtualHosts request],
          response := [], err := Some (External ''Throttling'') \<rparr>, Suc k)" if "0 < k"
  using that
  by (cases k) (simp_all add: attempt_def throttled_service_def incrementalWait_def Second_def)

lemma throttled_Retry:
  "length (calls (snd (Retry throttled_service example_request (now entered + 5 * Minute) entered 1))) = 14"
  by (simp add: Retry.simps throttled_attempt entered_def Minute_def Second_def)


text \<open>
  C5: after a request that succeeded, when the path \<open>$.Data.VirtualHosts\<close> is absent
  from the response the function returns the failed-get-attribute error that names the
  path, and when the list found there is empty it returns the not-found error for the id;
  in both cases no object is returned.
\<close>

theorem missing_path_and_empty_list:
  assumes "Retry s request (now st + 5 * Minute) st 1 = (None, st1)"
  shows "(\<forall>e. jsonpath_Get [''Data'', ''VirtualHosts''] (JObj (response st1)) = Inl e \<longrightarrow>
            list_pages s id' parts request st =
              Some (Return None (Some (WrapErrorf e FailedGetAttributeMsg
                      [ArgStr id', ArgStr ''$.Data.VirtualHosts'',
                       ArgResponse (response st1)])), st1)) \<and>
         (jsonpath_Get [''Data'', ''VirtualHosts''] (JObj (response st1)) = Inr (JArr []) \<longrightarrow>
            list_pages s id' parts request st =
              Some (Return None (Some (WrapErrorf (Error_GetNotFoundMessage ''Amqp'' id')
                      NotFoundWithResponse [ArgResponse (response st1)])), st1))"
  using Retry_err [OF assms]
  by (simp add: list_pages_unfold [OF assms] after_Retry_def not_found_def)

lemma example_missing_path:
  "Retry example_service (example_request(''NextToken'' \<mapsto> JStr ''t3''))
     (now after_first_call + 5 * Minute) after_first_call 1 =
   (None,
    \<lparr> now = 20000005,
      calls = [ListVirtualHosts example_request,
               ListVirtualHosts (example_request(''NextToken'' \<mapsto> JStr ''t3''))],
      response = [(''RequestId'', JStr ''r'')], err = None \<rparr>)"
  by (simp add: Retry.simps example_defs after_first_call_def example_request_def)

lemma example_empty_page:
  "Retry example_service (example_request(''NextToken'' \<mapsto> JStr ''t2''))
     (now after_first_call + 5 * Minute) after_first_call 1 =
   (None,
    \<lparr> now = 20000005,
      calls = [ListVirtualHosts example_request,
               ListVirtualHosts (example_request(''NextToken'' \<mapsto> JStr ''t2''))],
      response = reply_response (page [] ''t3''), err = None \<rparr>)"
  by (simp add: Retry.simps example_defs after_first_call_def example_request_def)

theorem missing_path_and_empty_list_witness:
  "list_pages example_service ''amqp-1:vh'' [''amqp-1'', ''vh'']
       (example_request(''NextToken'' \<mapsto> JStr ''t3'')) after_first_call =
     Some (Return None (Some (WrapErrorf (JsonPathError ''Data'') FailedGetAttributeMsg
             [ArgStr ''amqp-1:vh'', ArgStr ''$.Data.VirtualHosts'',
              ArgResponse [(''RequestId'', JStr ''r'')]])),
      \<lparr> now = 20000005,
        calls = [ListVirtualHosts example_request,
                 ListVirtualHosts (example_request(''NextToken'' \<mapsto> JStr ''t3''))],
        response = [(''RequestId'', JStr ''r'')], err = None \<rparr>) \<and>
   list_pages example_service ''amqp-1:vh'' [''amqp-1'', ''vh'']
       (example_request(''NextToken'' \<mapsto> JStr ''t2'')) after_first_call =
     Some (Return None (Some (WrapErrorf (Error_GetNotFoundMessage ''Amqp'' ''amqp-1:vh'')
             NotFoundWithResponse [ArgResponse (reply_response (page [] ''t3''))])),
      \<lparr> now = 20000005,
        calls = [ListVirtualHosts example_request,
                 ListVirtualHosts (example_request(''NextToken'' \<mapsto> JStr ''t2''))],
        response = reply_response (page [] ''t3''), err = None \<rparr>)"
  using
    missing_path_and_empty_list [OF example_missing_path,
      of "''amqp-1:vh''" "[''amqp-1'', ''vh'']"]
    missing_path_and_empty_list [OF example_empty_page,
      of "''amqp-1:vh''" "[''amqp-1'', ''vh'']"]
  by (simp add: page_def)

text \<open>
  C7: whatever error the function returns, on any of its error paths, was made by
  \<open>WrapError\<close> or \<open>WrapErrorf\<close>; it is never a bare error of the SDK.
\<close>

theorem returned_errors_are_wrapped:
  assumes "DescribeAmqpVirtualHost s id' = Some (Return obj (Some e), st)"
  shows "((\<exists>c. e = WrapError c) \<or> (\<exists>c m a. e = WrapErrorf c m a)) \<and> (\<forall>x. e \<noteq> External x)"
  using DescribeAmqpVirtualHost_Return [OF assms] by auto

text \<open>
  C8: the function never returns no object together with no error: what it returns is
  either a virtual host (a map that is not empty) and no error, or no object and an error,
  and never both.
\<close>

theorem object_or_error:
  assumes "DescribeAmqpVirtualHost s id' = Some (Return obj e, st)"
  shows "(\<exists>m. obj = Some m \<and> m \<noteq> [] \<and> e = None) \<and> \<not> (obj = None \<and> e \<noteq> None) \<or>
         (obj = None \<and> e \<noteq> None) \<and> \<not> (\<exists>m. obj = Some m \<and> e = None)"
  using DescribeAmqpVirtualHost_Return [OF assms] by auto

lemma example_invalid_id:
  "DescribeAmqpVirtualHost example_service ''amqp-1'' =
     Some (Return None (Some (WrapError (InvalidResourceId ''amqp-1'' 2 1))),
           \<lparr> now = 0, calls = [], response = [],
             err = Some (WrapError (InvalidResourceId ''amqp-1'' 2 1)) \<rparr>)"
  by (simp add: DescribeAmqpVirtualHost_def ParseResourceId_def example_service_def)

lemma example_found:
  "DescribeAmqpVirtualHost example_service ''amqp-1:b'' =
     Some (Return (Some [(''Name'', JStr ''b''), (''Status'', JStr ''enable'')]) None,
           \<lparr> now = 3040000000,
             calls = [ListVirtualHosts example_request, ListVirtualHosts example_request],
             response = reply_response (page [''a'', ''b''] ''t1''),
             err = None \<rparr>)"
proof -
  have r: "Retry example_service example_request
             (now entered + 5 * Minute) entered 1 =
           (None,
            \<lparr> now = 3040000000,
              calls = [ListVirtualHosts example_request, ListVirtualHosts example_request],
              response = reply_response (page [''a'', ''b''] ''t1''),
              err = None \<rparr>)"
    using example_first_page by (simp add: entered_def)
  have "list_pages example_service ''amqp-1:b'' [''amqp-1'', ''b''] example_request entered =
     Some (Return (Some [(''Name'', JStr ''b''), (''Status'', JStr ''enable'')]) None,
           \<lparr> now = 3040000000,
             calls = [ListVirtualHosts example_request, ListVirtualHosts example_request],
             response = reply_response (page [''a'', ''b''] ''t1''),
             err = None \<rparr>)"
    by (simp add: list_pages_unfold [OF r] after_Retry_def page_def host_def)
  then show ?thesis
    by (simp add: DescribeAmqpVirtualHost_def ParseResourceId_def example_service_def
        entered_def example_request_def)
qed

theorem returned_errors_are_wrapped_witness:
  "(\<exists>c. WrapError (InvalidResourceId ''amqp-1'' 2 1) = WrapError c) \<and>
   (\<forall>x. WrapError (InvalidResourceId ''amqp-1'' 2 1) \<noteq> External x) \<and>
   DescribeAmqpVirtualHost example_service ''amqp-1'' =
     Some (Return None (Some (WrapError (InvalidResourceId ''amqp-1'' 2 1))),
           \<lparr> now = 0, calls = [], response = [],
             err = Some (WrapError (InvalidResourceId ''amqp-1'' 2 1)) \<rparr>)"
  using returned_errors_are_wrapped [OF example_invalid_id] example_invalid_id
  by simp

theorem object_or_error_witness:
  "DescribeAmqpVirtualHost example_service ''amqp-1:b'' =
     Some (Return (Some [(''Name'', JStr ''b''), (''Status'', JStr ''enable'')]) None,
           \<lparr> now = 3040000000,
             calls = [ListVirtualHosts example_request, ListVirtualHosts example_request],
             response = reply_response (page [''a'', ''b''] ''t1''),
             err = None \<rparr>) \<and>
   [(''Name'', JStr ''b''), (''Status'', JStr ''enable'')] \<noteq> [] \<and>
   DescribeAmqpVirtualHost example_service ''amqp-1'' =
     Some (Return None (Some (WrapError (InvalidResourceId ''amqp-1'' 2 1))),
           \<lparr> now = 0, calls = [], response = [],
             err = Some (WrapError (InvalidResourceId ''amqp-1'' 2 1)) \<rparr>) \<and>
   Some (WrapError (InvalidResourceId ''amqp-1'' 2 1)) \<noteq> None"
  using object_or_error [OF example_found] object_or_error [OF example_invalid_id]
    example_found example_invalid_id
  by simp

text \<open>
  C9: the function paginates. When the list of a page is not empty and none of its entries
  is named like the second part of the id, a \<open>NextToken\<close> that is a non-empty string
  makes the loop issue the same request again with that token added, and the loop ends in
  the not-found error when the token is absent, empty or not a string; a page with an
  empty list ends in the not-found error at once, whatever its token.
\<close>

theorem pagination:
  assumes "Retry s request (now st + 5 * Minute) st 1 = (None, st1)"
    and "jsonpath_Get [''Data'', ''VirtualHosts''] (JObj (response st1)) = Inr (JArr vs)"
  shows "(vs = [] \<longrightarrow>
            list_pages s id' [p0, p1] request st =
              Some (Return None (Some (not_found id' (response st1))), st1)) \<and>
         (vs \<noteq> [] \<and>
          (\<forall>v\<in>set vs. \<exists>m n. v = JObj m \<and> map_of m ''Name'' = Some (JStr n) \<and> n \<noteq> p1) \<longrightarrow>
            (\<forall>t. map_of (response st1) ''NextToken'' = Some (JStr t) \<and> t \<noteq> [] \<longrightarrow>
               list_pages s id' [p0, p1] request st =
                 list_pages s id' [p0, p1] (request(''NextToken'' \<mapsto> JStr t)) st1 \<and>
               (\<forall>out st'. list_pages s id' [p0, p1] request st = Some (out, st') \<longrightarrow>
                  (\<exists>rest. calls st' =
                     calls st1 @ ListVirtualHosts (request(''NextToken'' \<mapsto> JStr t)) # rest))) \<and>
            ((\<forall>t. map_of (response st1) ''NextToken'' = Some (JStr t) \<longrightarrow> t = []) \<longrightarrow>
               list_pages s id' [p0, p1] request st =
                 Some (Return None (Some (not_found id' (response st1))), st1)))"
proof -
  note e = Retry_err [OF assms(1)]
  note unfold = list_pages_unfold [OF assms(1), of id' "[p0, p1]"]
  have empty: "list_pages s id' [p0, p1] request st =
      Some (Return None (Some (not_found id' (response st1))), st1)" if "vs = []"
    using that e assms(2) by (simp add: unfold after_Retry_def)
  have more: "list_pages s id' [p0, p1] request st =
      list_pages s id' [p0, p1] (request(''NextToken'' \<mapsto> JStr t)) st1"
    if "vs \<noteq> []" "scan_hosts vs [p0, p1] = NoMatch"
      "map_of (response st1) ''NextToken'' = Some (JStr t)" "t \<noteq> []" for t
    using that e assms(2) by (simp add: unfold after_Retry_def)
  have last: "list_pages s id' [p0, p1] request st =
      Some (Return None (Some (not_found id' (response st1))), st1)"
    if "vs \<noteq> []" "scan_hosts vs [p0, p1] = NoMatch"
      "\<forall>t. map_of (response st1) ''NextToken'' = Some (JStr t) \<longrightarrow> t = []"
    using that e assms(2)
    by (simp add: unfold after_Retry_def split: option.splits json.splits)
  have trace: "\<exists>rest. calls st' =
      calls st1 @ ListVirtualHosts (request(''NextToken'' \<mapsto> JStr t)) # rest"
    if "vs \<noteq> []" "scan_hosts vs [p0, p1] = NoMatch"
      "map_of (response st1) ''NextToken'' = Some (JStr t)" "t \<noteq> []"
      "list_pages s id' [p0, p1] request st = Some (out, st')" for t out st'
    using list_pages_calls [of s id' "[p0, p1]" "request(''NextToken'' \<mapsto> JStr t)" st1 out st']
      more [OF that(1-4)] that(5)
    by simp
  show ?thesis
    using empty more last trace scan_hosts_NoMatch [of vs p1 p0]
    by blast
qed

lemma example_second_page:
  "Retry example_service (example_request(''NextToken'' \<mapsto> JStr ''t1''))
     (now after_first_page + 5 * Minute) after_first_page 1 = (None, after_second_page)"
  by (simp add: Retry.simps example_defs after_first_page_def after_second_page_def
      example_request_def)

theorem pagination_witness:
  "list_pages example_service ''amqp-1:zz'' [''amqp-1'', ''zz''] example_request entered =
     Some (Return None
             (Some (not_found ''amqp-1:zz'' (reply_response (page [''c'', ''vh'', ''d''] [])))),
           after_second_page) \<and>
   list_pages example_service ''amqp-1:zz'' [''amqp-1'', ''zz'']
       (example_request(''NextToken'' \<mapsto> JStr ''t2'')) after_first_call =
     Some (Return None (Some (not_found ''amqp-1:zz'' (reply_response (page [] ''t3'')))),
      \<lparr> now = 20000005,
        calls = [ListVirtualHosts example_request,
                 ListVirtualHosts (example_request(''NextToken'' \<mapsto> JStr ''t2''))],
        response = reply_response (page [] ''t3''), err = None \<rparr>)"
proof -
  have r1: "Retry example_service example_request (now entered + 5 * Minute) entered 1 =
      (None, after_first_page)"
    using example_first_page by (simp add: entered_def after_first_page_def)
  have j1: "jsonpath_Get [''Data'', ''VirtualHosts''] (JObj (response after_first_page)) =
      Inr (JArr [host ''a'', host ''b''])"
    by (simp add: after_first_page_def page_def)
  have j2: "jsonpath_Get [''Data'', ''VirtualHosts''] (JObj (response after_second_page)) =
      Inr (JArr [host ''c'', host ''vh'', host ''d''])"
    by (simp add: after_second_page_def page_def)
  have j3: "jsonpath_Get [''Data'', ''VirtualHosts'']
      (JObj (response \<lparr> now = 20000005,
        calls = [ListVirtualHosts example_request,
                 ListVirtualHosts (example_request(''NextToken'' \<mapsto> JStr ''t2''))],
        response = reply_response (page [] ''t3''), err = None \<rparr>)) = Inr (JArr [])"
    by (simp add: page_def)
  have first: "list_pages example_service ''amqp-1:zz'' [''amqp-1'', ''zz''] example_request entered =
      list_pages example_service ''amqp-1:zz'' [''amqp-1'', ''zz'']
        (example_request(''NextToken'' \<mapsto> JStr ''t1'')) after_first_page"
    using pagination [OF r1 j1, of "''amqp-1:zz''" "''amqp-1''" "''zz''"]
    by (simp add: host_def after_first_page_def page_def)
  have second: "list_pages example_service ''amqp-1:zz'' [''amqp-1'', ''zz'']
        (example_request(''NextToken'' \<mapsto> JStr ''t1'')) after_first_page =
      Some (Return None
             (Some (not_found ''amqp-1:zz'' (reply_response (page [''c'', ''vh'', ''d''] [])))),
           after_second_page)"
    using pagination [OF example_second_page j2, of "''amqp-1:zz''" "''amqp-1''" "''zz''"]
    by (simp add: host_def after_second_page_def page_def)
  have empty: "list_pages example_service ''amqp-1:zz'' [''amqp-1'', ''zz'']
       (example_request(''NextToken'' \<mapsto> JStr ''t2'')) after_first_call =
     Some (Return None (Some (not_found ''amqp-1:zz'' (reply_response (page [] ''t3'')))),
      \<lparr> now = 20000005,
        calls = [ListVirtualHosts example_request,
                 ListVirtualHosts (example_request(''NextToken'' \<mapsto> JStr ''t2''))],
        response = reply_response (page [] ''t3''), err = None \<rparr>)"
    using pagination [OF example_empty_page j3, of "''amqp-1:zz''" "''amqp-1''" "''zz''"]
    by simp
  from first second empty show ?thesis
    by simp
qed

text \<open>
  The loop over the pages has no bound of its own: against a service that always names a
  next page and never the host looked for, the function does not return.
\<close>

lemma endless_Retry:
  "Retry endless_service request deadline st k =
     (None, st\<lparr> now := now st + 20000000,
                calls := calls st @ [ListVirtualHosts request],
                response := reply_response (page [''a''] ''t''),
                err := None \<rparr>)"
  by (rule Retry_success [where k' = k])
    (simp add: attempt_def endless_service_def page_def)

lemma endless_after_Retry:
  "response st = reply_response (page [''a''] ''t'') \<Longrightarrow> err st = None \<Longrightarrow>
     after_Retry id' [p0, ''zz''] request st = NextPage (request(''NextToken'' \<mapsto> JStr ''t''))"
  by (simp add: after_Retry_def page_def host_def)

lemma endless_page_loop:
  assumes "page_loop s id' parts b request st = Some y"
  shows "\<not> (s = endless_service \<and> parts = [p0, ''zz''])"
proof (rule page_loop.raw_induct
    [where P = "\<lambda>s id' parts b request st y. \<not> (s = endless_service \<and> parts = [p0, ''zz''])",
     OF _ assms], goal_cases)
  case (1 page_loop s id' parts idExist request st y)
  show ?case
  proof
    assume e: "s = endless_service \<and> parts = [p0, ''zz'']"
    let ?st1 = "st\<lparr> now := now st + 20000000,
                calls := calls st @ [ListVirtualHosts request],
                response := reply_response (page [''a''] ''t''),
                err := None \<rparr>"
    have "after_Retry id' [p0, ''zz''] request ?st1 =
        NextPage (request(''NextToken'' \<mapsto> JStr ''t''))"
      by (rule endless_after_Retry) simp_all
    with 1(2) e
    have "page_loop endless_service id' [p0, ''zz''] idExist
            (request(''NextToken'' \<mapsto> JStr ''t'')) ?st1 = Some y"
      by (simp add: endless_Retry)
    from 1(1) [OF this] show False
      by simp
  qed
qed

lemma pagination_may_not_end:
  "DescribeAmqpVirtualHost endless_service ''amqp-1:zz'' = None"
proof -
  have "page_loop endless_service ''amqp-1:zz'' [''amqp-1'', ''zz''] False request st = None"
    for request st
    using endless_page_loop [of endless_service "''amqp-1:zz''" "[''amqp-1'', ''zz'']" False
        request st _ "''amqp-1''"]
    by (cases "page_loop endless_service ''amqp-1:zz'' [''amqp-1'', ''zz''] False request st")
      auto
  then show ?thesis
    by (simp add: DescribeAmqpVirtualHost_def ParseResourceId_def list_pages_def
        endless_service_def)
qed

end
